theory Spec2Isabelle
  imports Main "HOL-Library.Word"
begin

section \<open>Data model\<close>

text \<open>
  The state-transition engine of \<^verbatim>\<open>core/state_transition.go\<close> and the deposit
  transaction of \<^verbatim>\<open>core/types\<close>. Go's \<^verbatim>\<open>uint64\<close> is \<open>64 word\<close> (\<open>+\<close>, \<open>-\<close>
  and \<open>*\<close> wrap), \<^verbatim>\<open>*big.Int\<close> is \<open>int\<close>, and \<open>int option\<close> where the engine
  tests the pointer for nil or where a nil pointer would be dereferenced.
\<close>

type_synonym uint64 = "64 word"
type_synonym byte = "8 word"
type_synonym address = "160 word"
type_synonym hash = "256 word"

text \<open>
  A Go call either returns or panics. A panic is not an error value: it unwinds through
  every caller of this file, so it is an outcome of its own.
\<close>

datatype 'a outcome = Returns 'a | Panics string

text \<open>
  The sentinel errors of package core that the engine returns, the errors of the virtual
  machine (opaque to the engine), and \<^verbatim>\<open>fmt.Errorf\<close> with the verb \<^verbatim>\<open>%w\<close>, which
  builds a new error value around the wrapped one (the format string is kept, the other
  arguments only feed the message).
\<close>

datatype error =
    ErrNonceTooLow
  | ErrNonceTooHigh
  | ErrNonceMax
  | ErrGasLimitReached
  | ErrDataGasLimitReached
  | ErrInsufficientFundsForTransfer
  | ErrMaxInitCodeSizeExceeded
  | ErrInsufficientFunds
  | ErrGasUintOverflow
  | ErrIntrinsicGas
  | ErrTipAboveFeeCap
  | ErrTipVeryHigh
  | ErrFeeCapVeryHigh
  | ErrFeeCapTooLow
  | ErrSenderNoEOA
  | ErrMaxFeePerDataGas
  | ErrInternalFailure
  | VMError string
  | Errorf string error

text \<open>\<^verbatim>\<open>errors.Unwrap\<close>: the error a \<^verbatim>\<open>%w\<close> wraps.\<close>

fun Unwrap :: "error \<Rightarrow> error option" where
  "Unwrap (Errorf fmt e) = Some e"
| "Unwrap _ = None"

record AccessTuple =
  Address :: address
  StorageKeys :: "hash list"

type_synonym AccessList = "AccessTuple list"

text \<open>
  The protocol constants of package \<^verbatim>\<open>params\<close> that the engine reads. The package is
  not part of the sources, so the constants are parameters of the model.
\<close>

record Params =
  TxGas :: uint64
  TxGasContractCreation :: uint64
  TxDataZeroGas :: uint64
  TxDataNonZeroGasFrontier :: uint64
  TxDataNonZeroGasEIP2028 :: uint64
  InitCodeWordGas :: uint64
  TxAccessListAddressGas :: uint64
  TxAccessListStorageKeyGas :: uint64
  DataGasPerBlob :: uint64
  MaxInitCodeSize :: nat

text \<open>
  The values of go-ethereum's \<^verbatim>\<open>params/protocol_params.go\<close>, used where a concrete
  run of the engine is evaluated.
\<close>

definition protocol_params :: Params where
  "protocol_params =
     \<lparr> TxGas = 21000, TxGasContractCreation = 53000, TxDataZeroGas = 4,
       TxDataNonZeroGasFrontier = 68, TxDataNonZeroGasEIP2028 = 16,
       InitCodeWordGas = 2, TxAccessListAddressGas = 2400,
       TxAccessListStorageKeyGas = 1900, DataGasPerBlob = 131072,
       MaxInitCodeSize = 49152 \<rparr>"


text \<open>
  The refund quotients \<^verbatim>\<open>params.RefundQuotient\<close> and \<^verbatim>\<open>params.RefundQuotientEIP3529\<close>:
  their values are given by the comments at their use in \<^verbatim>\<open>innerTransitionDb\<close>
  ("refunds were capped to gasUsed / 2", "refunds are capped to gasUsed / 5").
\<close>

definition RefundQuotient :: uint64 where
  "RefundQuotient = 2"

definition RefundQuotientEIP3529 :: uint64 where
  "RefundQuotientEIP3529 = 5"

section \<open>Intrinsic gas\<close>

definition MaxUint64 :: uint64 where
  "MaxUint64 = 18446744073709551615"

text \<open>
  Modelled from the spec: \<^verbatim>\<open>AccessList.StorageKeys\<close> of package types is not part of
  the sources; the spec charges "a flat per-key cost for each access-list storage key",
  so it is the number of storage keys over all tuples of the list.
\<close>

definition StorageKeysCount :: "AccessList \<Rightarrow> nat" where
  "StorageKeysCount al = sum_list (map (\<lambda>t. length (StorageKeys t)) al)"

text \<open>\<^verbatim>\<open>toWordSize\<close>: the ceiled number of 32-byte words.\<close>

definition toWordSize :: "uint64 \<Rightarrow> uint64" where
  "toWordSize sz =
     (if sz > MaxUint64 - 31 then MaxUint64 div 32 + 1 else (sz + 31) div 32)"

text \<open>The loop of \<^verbatim>\<open>IntrinsicGas\<close> that counts the non-zero bytes of the payload.\<close>

fun countNonZero :: "byte list \<Rightarrow> uint64 \<Rightarrow> uint64" where
  "countNonZero [] nz = nz"
| "countNonZero (byt # rest) nz = countNonZero rest (if byt \<noteq> 0 then nz + 1 else nz)"

text \<open>
  \<^verbatim>\<open>IntrinsicGas\<close>. \<^verbatim>\<open>uint64(len(data))\<close> is \<open>of_nat (length data)\<close>; a Go slice has
  fewer than \<open>2 ^ 63\<close> elements, so the conversion never wraps in the source. A nil access
  list is \<open>None\<close>.
\<close>

definition IntrinsicGas ::
  "Params \<Rightarrow> byte list \<Rightarrow> AccessList option \<Rightarrow> bool \<Rightarrow> bool \<Rightarrow> bool \<Rightarrow> bool \<Rightarrow> error + uint64"
where
  "IntrinsicGas p data accessList isContractCreation isHomestead isEIP2028 isEIP3860 =
     (let gas = (if isContractCreation \<and> isHomestead then TxGasContractCreation p else TxGas p);
          dataLen = (of_nat (length data) :: uint64);
          payload =
            (if dataLen > 0 then
               (let nz = countNonZero data 0;
                    nonZeroGas = (if isEIP2028 then TxDataNonZeroGasEIP2028 p
                                  else TxDataNonZeroGasFrontier p)
                in if (MaxUint64 - gas) div nonZeroGas < nz then Inl ErrGasUintOverflow
                   else
                     (let gas = gas + nz * nonZeroGas;
                          z = dataLen - nz
                      in if (MaxUint64 - gas) div TxDataZeroGas p < z then Inl ErrGasUintOverflow
                         else
                           (let gas = gas + z * TxDataZeroGas p
                            in if isContractCreation \<and> isEIP3860 then
                                 (let lenWords = toWordSize dataLen
                                  in if (MaxUint64 - gas) div InitCodeWordGas p < lenWords
                                     then Inl ErrGasUintOverflow
                                     else Inr (gas + lenWords * InitCodeWordGas p))
                               else Inr gas)))
             else Inr gas)
      in case payload of
           Inl err \<Rightarrow> Inl err
         | Inr gas \<Rightarrow>
             (case accessList of
                None \<Rightarrow> Inr gas
              | Some al \<Rightarrow>
                  Inr (gas + of_nat (length al) * TxAccessListAddressGas p
                           + of_nat (StorageKeysCount al) * TxAccessListStorageKeyGas p)))"




section \<open>The deposit transaction\<close>

record DepositTx =
  ChainID :: "int option"
  To :: "address option"
  Value :: "int option"
  Data :: "byte list"
  From :: "address option"

text \<open>
  The signature accessors of \<^verbatim>\<open>DepositTx\<close>: the body of each is a single
  \<^verbatim>\<open>panic("deposit tx does not have a signature")\<close>.
\<close>

definition rawSignatureValues :: "DepositTx \<Rightarrow> (int option \<times> int option \<times> int option) outcome" where
  "rawSignatureValues tx = Panics ''deposit tx does not have a signature''"

definition setSignatureValues ::
  "DepositTx \<Rightarrow> int option \<Rightarrow> int option \<Rightarrow> int option \<Rightarrow> int option \<Rightarrow> DepositTx outcome"
where
  "setSignatureValues tx chainID v r s = Panics ''deposit tx does not have a signature''"

section \<open>Collaborators of the engine\<close>

text \<open>
  \<^verbatim>\<open>Message\<close>: the accessor set of the interface, one field per method.
  \<^verbatim>\<open>GasFeeCap\<close>, \<^verbatim>\<open>GasTipCap\<close>, \<^verbatim>\<open>MaxFeePerDataGas\<close> and \<^verbatim>\<open>Mint\<close> may be nil;
  \<^verbatim>\<open>GasPrice\<close> and \<^verbatim>\<open>Value\<close> are used by the engine before any check and are taken
  to be set.
\<close>

record Message =
  From :: address
  To :: "address option"
  GasPrice :: int
  GasFeeCap :: "int option"
  GasTipCap :: "int option"
  MaxFeePerDataGas :: "int option"
  Gas :: uint64
  DataGas :: uint64
  Value :: int
  IsSystemTx :: bool
  IsDepositTx :: bool
  Mint :: "int option"
  RollupDataGas :: uint64
  Nonce :: uint64
  IsFake :: bool
  Data :: "byte list"
  AccessList :: "AccessList option"
  DataHashes :: "hash list"

record ExecutionResult =
  UsedGas :: uint64
  Err :: "error option"
  ReturnData :: "byte list"

text \<open>
  Modelled from the spec: \<^verbatim>\<open>GasPool\<close> of package core is not part of the sources. The
  spec describes it as "a single mutable per-block counter of remaining ordinary gas and
  remaining data/blob gas; supports bounded subtraction that fails when the pool is
  exhausted, and unbounded addition", with \<^verbatim>\<open>subGas(n) -> ok|fail(gas-limit-reached)\<close>,
  \<^verbatim>\<open>addGas(n)\<close> and \<^verbatim>\<open>subDataGas(n) -> ok|fail\<close>. The spec names no error for a failed
  \<^verbatim>\<open>subDataGas\<close>; it has a constructor of its own here.
\<close>

record GasPool =
  remainingGas :: uint64
  remainingDataGas :: uint64

definition SubGas :: "GasPool \<Rightarrow> uint64 \<Rightarrow> error + GasPool" where
  "SubGas pool amount =
     (if remainingGas pool < amount then Inl ErrGasLimitReached
      else Inr (pool\<lparr>remainingGas := remainingGas pool - amount\<rparr>))"

definition AddGas :: "GasPool \<Rightarrow> uint64 \<Rightarrow> GasPool" where
  "AddGas pool amount = pool\<lparr>remainingGas := remainingGas pool + amount\<rparr>"

definition SubDataGas :: "GasPool \<Rightarrow> uint64 \<Rightarrow> error + GasPool" where
  "SubDataGas pool amount =
     (if remainingDataGas pool < amount then Inl ErrDataGasLimitReached
      else Inr (pool\<lparr>remainingDataGas := remainingDataGas pool - amount\<rparr>))"

text \<open>
  Modelled from the spec: \<^verbatim>\<open>vm.StateDB\<close> is not part of the sources. The spec describes
  the world state as a "mutable ledger exposing: get/set balance, get/set nonce, get code
  hash, get/set refund counter, take/revert-to snapshot". The ledger is a value here, so a
  snapshot is the ledger at the time it is taken and reverting to it puts that value back.
\<close>

record WorldState =
  Balance :: "address \<Rightarrow> int"
  NonceOf :: "address \<Rightarrow> uint64"
  CodeHashOf :: "address \<Rightarrow> hash"
  Refund :: uint64

definition GetBalance :: "WorldState \<Rightarrow> address \<Rightarrow> int" where
  "GetBalance s a = Balance s a"

definition AddBalance :: "WorldState \<Rightarrow> address \<Rightarrow> int \<Rightarrow> WorldState" where
  "AddBalance s a amount = s\<lparr>Balance := (Balance s)(a := Balance s a + amount)\<rparr>"

definition SubBalance :: "WorldState \<Rightarrow> address \<Rightarrow> int \<Rightarrow> WorldState" where
  "SubBalance s a amount = s\<lparr>Balance := (Balance s)(a := Balance s a - amount)\<rparr>"

definition GetNonce :: "WorldState \<Rightarrow> address \<Rightarrow> uint64" where
  "GetNonce s a = NonceOf s a"

definition SetNonce :: "WorldState \<Rightarrow> address \<Rightarrow> uint64 \<Rightarrow> WorldState" where
  "SetNonce s a n = s\<lparr>NonceOf := (NonceOf s)(a := n)\<rparr>"

definition GetCodeHash :: "WorldState \<Rightarrow> address \<Rightarrow> hash" where
  "GetCodeHash s a = CodeHashOf s a"

definition GetRefund :: "WorldState \<Rightarrow> uint64" where
  "GetRefund s = Refund s"

definition Snapshot :: "WorldState \<Rightarrow> WorldState" where
  "Snapshot s = s"

definition RevertToSnapshot :: "WorldState \<Rightarrow> WorldState \<Rightarrow> WorldState" where
  "RevertToSnapshot s snap = snap"

text \<open>The rule flags of \<^verbatim>\<open>params.Rules\<close> that the engine reads.\<close>

record Rules =
  IsHomestead :: bool
  IsIstanbul :: bool
  IsLondon :: bool
  IsShanghai :: bool
  IsOptimismBedrock :: bool

text \<open>
  \<^verbatim>\<open>vm.EVM\<close> as the engine sees it: the block context, the answers of the chain
  configuration at this block (\<^verbatim>\<open>ChainConfig().IsLondon(BlockNumber)\<close>,
  \<^verbatim>\<open>ChainConfig().IsSharding(Time)\<close>, \<^verbatim>\<open>ChainConfig().Optimism != nil\<close>,
  \<^verbatim>\<open>ChainConfig().Rules(...)\<close>), the \<^verbatim>\<open>NoBaseFee\<close> switch, and the collaborators it
  calls: \<^verbatim>\<open>misc.GetDataGasPrice\<close>, \<^verbatim>\<open>StateDB.Prepare\<close>, \<^verbatim>\<open>Call\<close> and \<^verbatim>\<open>Create\<close>.
  None of them is part of the sources; each is a parameter. \<^verbatim>\<open>Call\<close> and \<^verbatim>\<open>Create\<close>
  take the ledger and return it with the payload, the gas left over and the VM error.
  The two fee recipients are constants of package \<^verbatim>\<open>params\<close>. The tracer hooks
  (\<^verbatim>\<open>Config.Debug\<close>) only observe and are left out.
\<close>

record EVM =
  L1CostFunc :: "(uint64 \<Rightarrow> Message \<Rightarrow> int option) option"
  BlockNumber :: int
  Time :: int
  ExcessDataGas :: "int option"
  BaseFee :: "int option"
  Coinbase :: address
  CanTransfer :: "WorldState \<Rightarrow> address \<Rightarrow> int \<Rightarrow> bool"
  ChainIsLondon :: bool
  ChainIsSharding :: bool
  ChainOptimism :: bool
  ChainRules :: Rules
  NoBaseFee :: bool
  GetDataGasPrice :: "int option \<Rightarrow> int"
  Prepare :: "Message \<Rightarrow> WorldState \<Rightarrow> WorldState"
  Call :: "WorldState \<Rightarrow> address \<Rightarrow> address \<Rightarrow> byte list \<Rightarrow> uint64 \<Rightarrow> int
             \<Rightarrow> byte list \<times> uint64 \<times> error option \<times> WorldState"
  Create :: "WorldState \<Rightarrow> address \<Rightarrow> byte list \<Rightarrow> uint64 \<Rightarrow> int
             \<Rightarrow> byte list \<times> address \<times> uint64 \<times> error option \<times> WorldState"
  OptimismBaseFeeRecipient :: address
  OptimismL1FeeRecipient :: address

text \<open>
  The contract of the virtual machine that the gas accounting relies on: \<^verbatim>\<open>Call\<close> and
  \<^verbatim>\<open>Create\<close> hand back at most the gas they were given.
\<close>

definition vm_returns_leftover :: "EVM \<Rightarrow> bool" where
  "vm_returns_leftover evm \<longleftrightarrow>
     (\<forall>s sender dest input g v. fst (snd (Call evm s sender dest input g v)) \<le> g) \<and>
     (\<forall>s sender input g v. fst (snd (snd (Create evm s sender input g v))) \<le> g)"

text \<open>\<^verbatim>\<open>big.Int.Uint64\<close>: the low 64 bits of the magnitude.\<close>

definition Uint64 :: "int \<Rightarrow> uint64" where
  "Uint64 x = word_of_int \<bar>x\<bar>"

text \<open>\<^verbatim>\<open>big.Int.BitLen\<close>: the length of the magnitude in bits, 0 for 0.\<close>

fun bitLenNat :: "nat \<Rightarrow> nat" where
  "bitLenNat n = (if n = 0 then 0 else Suc (bitLenNat (n div 2)))"

declare bitLenNat.simps [simp del]

definition BitLen :: "int \<Rightarrow> nat" where
  "BitLen x = bitLenNat (nat \<bar>x\<bar>)"

text \<open>A method called on a nil \<^verbatim>\<open>*big.Int\<close>, or a call of a nil function value.\<close>

definition nilDereference :: "'a outcome" where
  "nilDereference =
     Panics ''runtime error: invalid memory address or nil pointer dereference''"

text \<open>\<^verbatim>\<open>crypto.Keccak256Hash(nil)\<close>, the hash of the empty code.\<close>

definition emptyCodeHash :: hash where
  "emptyCodeHash = 0xC5D2460186F7233C927E7DB2DCC703C0E500B653CA82273B7BFAD8045D85A470"

section \<open>The state transition\<close>

text \<open>
  \<^verbatim>\<open>StateTransition\<close>: the fields the engine mutates. The message and the EVM are
  read-only and are passed beside it. The gas pool is shared with the caller through a
  pointer, so the pool a function returns is the pool the caller sees afterwards.
\<close>

record StateTransition =
  gp :: GasPool
  gasRemaining :: uint64
  state :: WorldState

definition NewStateTransition :: "GasPool \<Rightarrow> WorldState \<Rightarrow> StateTransition" where
  "NewStateTransition pool s = \<lparr> gp = pool, gasRemaining = 0, state = s \<rparr>"

definition to :: "Message \<Rightarrow> address" where
  "to msg = (case To msg of None \<Rightarrow> 0 | Some a \<Rightarrow> a)"

definition gasUsed :: "Message \<Rightarrow> StateTransition \<Rightarrow> uint64" where
  "gasUsed msg st = Gas msg - gasRemaining st"

definition dataGasUsed :: "Params \<Rightarrow> Message \<Rightarrow> uint64" where
  "dataGasUsed p msg = of_nat (length (DataHashes msg)) * DataGasPerBlob p"

text \<open>
  \<^verbatim>\<open>buyGas\<close>. The result is the error (\<open>None\<close> for nil) and the transition as the
  call leaves it, also when it fails.
\<close>

definition buyGas ::
  "Params \<Rightarrow> EVM \<Rightarrow> Message \<Rightarrow> StateTransition \<Rightarrow> error option \<times> StateTransition"
where
  "buyGas p evm msg st =
     (let mgval = uint (Gas msg) * GasPrice msg;
          l1Cost = (case L1CostFunc evm of
                      None \<Rightarrow> None
                    | Some f \<Rightarrow> f (Uint64 (BlockNumber evm)) msg);
          mgval = (case l1Cost of None \<Rightarrow> mgval | Some c \<Rightarrow> mgval + c)
      in if ChainIsSharding evm \<and> ExcessDataGas evm = None
         then (Some (Errorf ''%w: sharding is active but ExcessDataGas is nil. Time: %v''
                       ErrInternalFailure), st)
         else
           (let dataGasUsed' = (if ChainIsSharding evm then dataGasUsed p msg else 0);
                dgval = (if ChainIsSharding evm
                         then GetDataGasPrice evm (ExcessDataGas evm) * uint dataGasUsed'
                         else 0);
                balanceRequired =
                  (case GasFeeCap msg of
                     None \<Rightarrow> mgval
                   | Some gasFeeCap \<Rightarrow>
                       Value msg + dgval + uint (Gas msg) * gasFeeCap
                       + (case l1Cost of None \<Rightarrow> 0 | Some c \<Rightarrow> c))
            in if GetBalance (state st) (From msg) < balanceRequired
               then (Some (Errorf ''%w: address %v have %v want %v'' ErrInsufficientFunds), st)
               else
                 (case SubGas (gp st) (Gas msg) of
                    Inl err \<Rightarrow> (Some err, st)
                  | Inr pool1 \<Rightarrow>
                      (let st1 = st\<lparr>gp := pool1, gasRemaining := gasRemaining st + Gas msg\<rparr>
                       in case SubDataGas (gp st1) dataGasUsed' of
                            Inl err \<Rightarrow> (Some err, st1)
                          | Inr pool2 \<Rightarrow>
                              (None,
                               st1\<lparr>gp := pool2,
                                    state := SubBalance (state st1) (From msg)
                                               (mgval + dgval)\<rparr>)))))"

text \<open>
  \<^verbatim>\<open>preCheck\<close>, in the order of the source: the deposit path, the nonce and
  sender-account checks, the fee-market checks, the data-gas price check, then \<^verbatim>\<open>buyGas\<close>.
  The three groups of checks are definitions of their own.
\<close>

definition preCheckNonce :: "Message \<Rightarrow> StateTransition \<Rightarrow> error option" where
  "preCheckNonce msg st =
     (if \<not> IsFake msg then
        (let stNonce = GetNonce (state st) (From msg);
             msgNonce = Nonce msg
         in if stNonce < msgNonce
            then Some (Errorf ''%w: address %v, tx: %d state: %d'' ErrNonceTooHigh)
            else if stNonce > msgNonce
            then Some (Errorf ''%w: address %v, tx: %d state: %d'' ErrNonceTooLow)
            else if stNonce + 1 < stNonce
            then Some (Errorf ''%w: address %v, nonce: %d'' ErrNonceMax)
            else
              (let codeHash = GetCodeHash (state st) (From msg)
               in if codeHash \<noteq> emptyCodeHash \<and> codeHash \<noteq> 0
                  then Some (Errorf ''%w: address %v, codehash: %s'' ErrSenderNoEOA)
                  else None))
      else None)"

definition preCheckFees :: "EVM \<Rightarrow> Message \<Rightarrow> error option outcome" where
  "preCheckFees evm msg =
     (if ChainIsLondon evm then
        (case (if \<not> NoBaseFee evm then Returns True
               else case GasFeeCap msg of
                      None \<Rightarrow> nilDereference
                    | Some gasFeeCap \<Rightarrow>
                        if BitLen gasFeeCap > 0 then Returns True
                        else (case GasTipCap msg of
                                None \<Rightarrow> nilDereference
                              | Some gasTipCap \<Rightarrow> Returns (BitLen gasTipCap > 0))) of
           Panics m \<Rightarrow> Panics m
         | Returns False \<Rightarrow> Returns None
         | Returns True \<Rightarrow>
             (case GasFeeCap msg of
                None \<Rightarrow> nilDereference
              | Some gasFeeCap \<Rightarrow>
                  if BitLen gasFeeCap > 256
                  then Returns (Some (Errorf ''%w: address %v, maxFeePerGas bit length: %d''
                                        ErrFeeCapVeryHigh))
                  else
                    (case GasTipCap msg of
                       None \<Rightarrow> nilDereference
                     | Some gasTipCap \<Rightarrow>
                         if BitLen gasTipCap > 256
                         then Returns (Some (Errorf
                                ''%w: address %v, maxPriorityFeePerGas bit length: %d''
                                ErrTipVeryHigh))
                         else if gasFeeCap < gasTipCap
                         then Returns (Some (Errorf
                                ''%w: address %v, maxPriorityFeePerGas: %s, maxFeePerGas: %s''
                                ErrTipAboveFeeCap))
                         else
                           (case BaseFee evm of
                              None \<Rightarrow> nilDereference
                            | Some baseFee \<Rightarrow>
                                if gasFeeCap < baseFee
                                then Returns (Some (Errorf
                                       ''%w: address %v, maxFeePerGas: %s baseFee: %s''
                                       ErrFeeCapTooLow))
                                else Returns None))))
      else Returns None)"

definition preCheckDataGas :: "Params \<Rightarrow> EVM \<Rightarrow> Message \<Rightarrow> error option outcome" where
  "preCheckDataGas p evm msg =
     (if dataGasUsed p msg > 0 \<and> ChainIsSharding evm then
        (let dataGasPrice = GetDataGasPrice evm (ExcessDataGas evm)
         in case MaxFeePerDataGas msg of
              None \<Rightarrow> nilDereference
            | Some maxFeePerDataGas \<Rightarrow>
                if dataGasPrice > maxFeePerDataGas
                then Returns (Some (Errorf
                       ''%w: address %v, maxFeePerDataGas: %v dataGasPrice: %v, excessDataGas: %v''
                       ErrMaxFeePerDataGas))
                else Returns None)
      else Returns None)"

definition preCheck ::
  "Params \<Rightarrow> EVM \<Rightarrow> Message \<Rightarrow> StateTransition \<Rightarrow> (error option \<times> StateTransition) outcome"
where
  "preCheck p evm msg st =
     (if IsDepositTx msg then
        (let st1 = st\<lparr>gasRemaining := gasRemaining st + Gas msg\<rparr>
         in if IsSystemTx msg then Returns (None, st1)
            else (case SubGas (gp st1) (Gas msg) of
                    Inl err \<Rightarrow> Returns (Some err, st1)
                  | Inr pool1 \<Rightarrow> Returns (None, st1\<lparr>gp := pool1\<rparr>)))
      else
        (case preCheckNonce msg st of
           Some err \<Rightarrow> Returns (Some err, st)
         | None \<Rightarrow>
             (case preCheckFees evm msg of
                Panics m \<Rightarrow> Panics m
              | Returns (Some err) \<Rightarrow> Returns (Some err, st)
              | Returns None \<Rightarrow>
                  (case preCheckDataGas p evm msg of
                     Panics m \<Rightarrow> Panics m
                   | Returns (Some err) \<Rightarrow> Returns (Some err, st)
                   | Returns None \<Rightarrow> Returns (buyGas p evm msg st)))))"

text \<open>\<^verbatim>\<open>refundGas\<close>.\<close>

definition refundGas :: "Message \<Rightarrow> uint64 \<Rightarrow> StateTransition \<Rightarrow> StateTransition" where
  "refundGas msg refundQuotient st =
     (let refund = gasUsed msg st div refundQuotient;
          refund = (if refund > GetRefund (state st) then GetRefund (state st) else refund);
          st1 = st\<lparr>gasRemaining := gasRemaining st + refund\<rparr>;
          remaining = uint (gasRemaining st1) * GasPrice msg;
          st2 = st1\<lparr>state := AddBalance (state st1) (From msg) remaining\<rparr>
      in st2\<lparr>gp := AddGas (gp st2) (gasRemaining st2)\<rparr>)"

text \<open>
  The end of \<^verbatim>\<open>innerTransitionDb\<close> for a message that is not a deposit:
  \<open>settle\<close> is the refund followed by \<open>payFees\<close>, which is the tip of the coinbase,
  the two rollup fees, and the result.
\<close>

definition effectiveTip :: "EVM \<Rightarrow> Message \<Rightarrow> Rules \<Rightarrow> int outcome" where
  "effectiveTip evm msg rules =
     (if IsLondon rules then
        (case GasFeeCap msg of
           None \<Rightarrow> nilDereference
         | Some gasFeeCap \<Rightarrow>
             (case BaseFee evm of
                None \<Rightarrow> nilDereference
              | Some baseFee \<Rightarrow>
                  (case GasTipCap msg of
                     None \<Rightarrow> nilDereference
                   | Some gasTipCap \<Rightarrow> Returns (min gasTipCap (gasFeeCap - baseFee)))))
      else Returns (GasPrice msg))"

definition skipFeePayment :: "EVM \<Rightarrow> Message \<Rightarrow> bool outcome" where
  "skipFeePayment evm msg =
     (if \<not> NoBaseFee evm then Returns False
      else case GasFeeCap msg of
             None \<Rightarrow> nilDereference
           | Some gasFeeCap \<Rightarrow>
               if gasFeeCap \<noteq> 0 then Returns False
               else (case GasTipCap msg of
                       None \<Rightarrow> nilDereference
                     | Some gasTipCap \<Rightarrow> Returns (gasTipCap = 0)))"

definition rollupFees ::
  "EVM \<Rightarrow> Message \<Rightarrow> Rules \<Rightarrow> StateTransition \<Rightarrow> StateTransition outcome"
where
  "rollupFees evm msg rules st =
     (if ChainOptimism evm \<and> IsOptimismBedrock rules then
        (case BaseFee evm of
           None \<Rightarrow> nilDereference
         | Some baseFee \<Rightarrow>
             (let st1 = st\<lparr>state := AddBalance (state st) (OptimismBaseFeeRecipient evm)
                                       (uint (gasUsed msg st) * baseFee)\<rparr>
              in case L1CostFunc evm of
                   None \<Rightarrow> nilDereference
                 | Some f \<Rightarrow>
                     (case f (Uint64 (BlockNumber evm)) msg of
                        None \<Rightarrow> Returns st1
                      | Some cost \<Rightarrow>
                          Returns (st1\<lparr>state := AddBalance (state st1)
                                                   (OptimismL1FeeRecipient evm) cost\<rparr>))))
      else Returns st)"

definition payFees ::
  "EVM \<Rightarrow> Message \<Rightarrow> Rules \<Rightarrow> byte list \<Rightarrow> error option \<Rightarrow> StateTransition
     \<Rightarrow> (ExecutionResult option \<times> error option \<times> StateTransition) outcome"
where
  "payFees evm msg rules ret vmerr st1 =
     (case effectiveTip evm msg rules of
        Panics m \<Rightarrow> Panics m
      | Returns tip \<Rightarrow>
          (case skipFeePayment evm msg of
             Panics m \<Rightarrow> Panics m
           | Returns skip \<Rightarrow>
               (let st2 = (if skip then st1
                           else st1\<lparr>state := AddBalance (state st1) (Coinbase evm)
                                                 (uint (gasUsed msg st1) * tip)\<rparr>)
                in case rollupFees evm msg rules st2 of
                     Panics m \<Rightarrow> Panics m
                   | Returns st3 \<Rightarrow>
                       Returns (Some \<lparr> UsedGas = gasUsed msg st3, Err = vmerr,
                                       ReturnData = ret \<rparr>, None, st3))))"

definition settle ::
  "EVM \<Rightarrow> Message \<Rightarrow> Rules \<Rightarrow> byte list \<Rightarrow> error option \<Rightarrow> StateTransition
     \<Rightarrow> (ExecutionResult option \<times> error option \<times> StateTransition) outcome"
where
  "settle evm msg rules ret vmerr st =
     (let st1 = (if \<not> IsLondon rules then refundGas msg RefundQuotient st
                 else refundGas msg RefundQuotientEIP3529 st)
      in payFees evm msg rules ret vmerr st1)"

text \<open>
  The invocation of the virtual machine in \<^verbatim>\<open>innerTransitionDb\<close>: \<^verbatim>\<open>Create\<close> for a
  contract creation, otherwise the nonce of the sender is incremented and \<^verbatim>\<open>Call\<close>
  runs. The result is the payload, the gas left over, the VM error and the ledger.
\<close>

definition execute ::
  "EVM \<Rightarrow> Message \<Rightarrow> StateTransition \<Rightarrow> byte list \<times> uint64 \<times> error option \<times> WorldState"
where
  "execute evm msg st =
     (if To msg = None then
        (case Create evm (state st) (From msg) (Data msg) (gasRemaining st) (Value msg) of
           (ret, contractAddr, leftOver, vmerr, s') \<Rightarrow> (ret, leftOver, vmerr, s'))
      else
        Call evm
          (SetNonce (state st) (From msg) (GetNonce (state st) (From msg) + 1))
          (From msg) (to msg) (Data msg) (gasRemaining st) (Value msg))"

text \<open>
  \<^verbatim>\<open>innerTransitionDb\<close>. The result is the execution result (\<open>None\<close> for nil), the
  consensus error (\<open>None\<close> for nil) and the transition as the call leaves it.
\<close>

definition innerTransitionDb ::
  "Params \<Rightarrow> EVM \<Rightarrow> Message \<Rightarrow> StateTransition
     \<Rightarrow> (ExecutionResult option \<times> error option \<times> StateTransition) outcome"
where
  "innerTransitionDb p evm msg st =
     (case preCheck p evm msg st of
        Panics m \<Rightarrow> Panics m
      | Returns (Some err, st1) \<Rightarrow> Returns (None, Some err, st1)
      | Returns (None, st1) \<Rightarrow>
          (let rules = ChainRules evm;
               contractCreation = (To msg = None)
           in case IntrinsicGas p (Data msg) (AccessList msg) contractCreation
                     (IsHomestead rules) (IsIstanbul rules) (IsShanghai rules) of
                Inl err \<Rightarrow> Returns (None, Some err, st1)
              | Inr intrinsic \<Rightarrow>
                  if gasRemaining st1 < intrinsic
                  then Returns (None, Some (Errorf ''%w: have %d, want %d'' ErrIntrinsicGas), st1)
                  else
                    (let st2 = st1\<lparr>gasRemaining := gasRemaining st1 - intrinsic\<rparr>
                     in if Value msg > 0
                           \<and> \<not> CanTransfer evm (state st2) (From msg) (Value msg)
                        then Returns (None, Some (Errorf ''%w: address %v''
                                             ErrInsufficientFundsForTransfer), st2)
                        else if IsShanghai rules \<and> contractCreation
                                \<and> length (Data msg) > MaxInitCodeSize p
                        then Returns (None, Some (Errorf ''%w: code size %v limit %v''
                                             ErrMaxInitCodeSizeExceeded), st2)
                        else
                          (let st3 = st2\<lparr>state := Prepare evm msg (state st2)\<rparr>
                           in case execute evm msg st3 of
                                (ret, leftOver, vmerr, s') \<Rightarrow>
                                  (let st4 = st3\<lparr>gasRemaining := leftOver, state := s'\<rparr>
                                   in if IsDepositTx msg then
                                        Returns (Some \<lparr> UsedGas = (if IsSystemTx msg then 0
                                                                   else Gas msg),
                                                        Err = vmerr, ReturnData = ret \<rparr>,
                                                 None, st4)
                                      else settle evm msg rules ret vmerr st4)))))"

text \<open>\<^verbatim>\<open>TransitionDb\<close>.\<close>

definition TransitionDb ::
  "Params \<Rightarrow> EVM \<Rightarrow> Message \<Rightarrow> StateTransition
     \<Rightarrow> (ExecutionResult option \<times> error option \<times> StateTransition) outcome"
where
  "TransitionDb p evm msg st =
     (let st0 = (case Mint msg of
                   None \<Rightarrow> st
                 | Some mint \<Rightarrow> st\<lparr>state := AddBalance (state st) (From msg) mint\<rparr>);
          snap = Snapshot (state st0)
      in case innerTransitionDb p evm msg st0 of
           Panics m \<Rightarrow> Panics m
         | Returns (result, err, st1) \<Rightarrow>
             (case err of
                None \<Rightarrow> Returns (result, err, st1)
              | Some e \<Rightarrow>
                  if e \<noteq> ErrGasLimitReached \<and> IsDepositTx msg then
                    (let st2 = st1\<lparr>state := RevertToSnapshot (state st1) snap\<rparr>;
                         st3 = st2\<lparr>state := SetNonce (state st2) (From msg)
                                                 (GetNonce (state st2) (From msg) + 1)\<rparr>;
                         gasUsed' = (if IsSystemTx msg then 0 else Gas msg)
                     in Returns (Some \<lparr> UsedGas = gasUsed',
                                        Err = Some (Errorf ''failed deposit: %w'' e),
                                        ReturnData = [] \<rparr>, None, st3))
                  else Returns (result, err, st1)))"

text \<open>
  \<^verbatim>\<open>ApplyMessage\<close>: a new transition (remaining gas 0) over the pool and the ledger,
  then \<^verbatim>\<open>TransitionDb\<close>.
\<close>

definition ApplyMessage ::
  "Params \<Rightarrow> EVM \<Rightarrow> Message \<Rightarrow> GasPool \<Rightarrow> WorldState
     \<Rightarrow> (ExecutionResult option \<times> error option \<times> StateTransition) outcome"
where
  "ApplyMessage p evm msg pool s = TransitionDb p evm msg (NewStateTransition pool s)"

text \<open>What a caller reads off the outcome of a transition; a panic yields neither.\<close>

definition resultOf ::
  "(ExecutionResult option \<times> error option \<times> StateTransition) outcome \<Rightarrow> ExecutionResult option"
where
  "resultOf out = (case out of Returns (res, err, st) \<Rightarrow> res | Panics m \<Rightarrow> None)"

definition consensusErrorOf ::
  "(ExecutionResult option \<times> error option \<times> StateTransition) outcome \<Rightarrow> error option"
where
  "consensusErrorOf out = (case out of Returns (res, err, st) \<Rightarrow> err | Panics m \<Rightarrow> None)"

section \<open>Sizes of an access list\<close>

text \<open>The number of addresses and of storage keys of an access list; a nil list has none.\<close>

definition accessListLen :: "AccessList option \<Rightarrow> nat" where
  "accessListLen accessList = (case accessList of None \<Rightarrow> 0 | Some al \<Rightarrow> length al)"

definition accessListKeys :: "AccessList option \<Rightarrow> nat" where
  "accessListKeys accessList = (case accessList of None \<Rightarrow> 0 | Some al \<Rightarrow> StorageKeysCount al)"


section \<open>Inputs the function can be called with\<close>

text \<open>
  The payload and the access list are Go slices, held in the memory of the process. A
  64-bit Go process addresses at most \<open>2 ^ 48\<close> bytes, a tuple of the access list holds
  at least the 20 bytes of its address and a storage key 32 bytes, so the payload has
  fewer than \<open>2 ^ 48\<close> bytes and the access list fewer than \<open>2 ^ 48\<close> tuples and fewer
  than \<open>2 ^ 48\<close> storage keys.
\<close>

definition fits_in_memory :: "byte list \<Rightarrow> AccessList option \<Rightarrow> bool" where
  "fits_in_memory data accessList \<longleftrightarrow>
     length data < 2 ^ 48 \<and> accessListLen accessList < 2 ^ 48
     \<and> accessListKeys accessList < 2 ^ 48"


section \<open>A concrete machine, messages and ledger\<close>

text \<open>
  Inputs at which the engine is evaluated below. The machine's \<^verbatim>\<open>Call\<close> uses 5000 gas
  and leaves a refund counter of 15000 (what clearing one storage slot did before the
  London upgrade); with less than 5000 gas it runs out of gas.
\<close>

definition example_call ::
  "WorldState \<Rightarrow> address \<Rightarrow> address \<Rightarrow> byte list \<Rightarrow> uint64 \<Rightarrow> int
     \<Rightarrow> byte list \<times> uint64 \<times> error option \<times> WorldState" where
  "example_call s sender dest input g v =
     (if g < 5000 then ([], 0, Some (VMError ''out of gas''), s)
      else ([], g - 5000, None, s\<lparr>Refund := 15000\<rparr>))"

definition example_create ::
  "WorldState \<Rightarrow> address \<Rightarrow> byte list \<Rightarrow> uint64 \<Rightarrow> int
     \<Rightarrow> byte list \<times> address \<times> uint64 \<times> error option \<times> WorldState" where
  "example_create s sender input g v = ([], 0, g, None, s)"

definition example_evm :: EVM where
  "example_evm =
     \<lparr> L1CostFunc = None, BlockNumber = 1, Time = 0, ExcessDataGas = None, BaseFee = None,
       Coinbase = 3, CanTransfer = (\<lambda>s a v. v \<le> GetBalance s a),
       ChainIsLondon = False, ChainIsSharding = False, ChainOptimism = False,
       ChainRules = \<lparr> IsHomestead = True, IsIstanbul = True, IsLondon = False,
                      IsShanghai = False, IsOptimismBedrock = False \<rparr>,
       NoBaseFee = False, GetDataGasPrice = (\<lambda>excess. 1), Prepare = (\<lambda>m s. s),
       Call = example_call, Create = example_create,
       OptimismBaseFeeRecipient = 4, OptimismL1FeeRecipient = 5 \<rparr>"

definition example_sharding_evm :: EVM where
  "example_sharding_evm =
     example_evm\<lparr> ChainIsSharding := True, ExcessDataGas := Some 0,
                  L1CostFunc := Some (\<lambda>blockNumber m. Some 7) \<rparr>"

definition example_msg :: Message where
  "example_msg =
     \<lparr> From = 1, To = Some 2, GasPrice = 1, GasFeeCap = None, GasTipCap = None,
       MaxFeePerDataGas = Some 1, Gas = 30000, DataGas = 0, Value = 0, IsSystemTx = False,
       IsDepositTx = False, Mint = None, RollupDataGas = 0, Nonce = 0, IsFake = False,
       Data = [], AccessList = None, DataHashes = [] \<rparr>"

definition example_blob_msg :: Message where
  "example_blob_msg = example_msg\<lparr> DataHashes := [0] \<rparr>"

definition example_deposit :: Message where
  "example_deposit = example_msg\<lparr> IsDepositTx := True, Mint := Some 100, Gas := 100 \<rparr>"

definition example_state :: WorldState where
  "example_state =
     \<lparr> Balance = (\<lambda>a. if a = 1 then 1000000 else 0), NonceOf = (\<lambda>a. 0),
       CodeHashOf = (\<lambda>a. 0), Refund = 0 \<rparr>"

definition example_pool :: GasPool where
  "example_pool = \<lparr> remainingGas = 100000, remainingDataGas = 0 \<rparr>"

definition example_blob_pool :: GasPool where
  "example_blob_pool = \<lparr> remainingGas = 100000, remainingDataGas = 262144 \<rparr>"

section \<open>Arithmetic of the checked additions\<close>











lemma StorageKeysCount_replicate:
  "StorageKeysCount (replicate n t) = n * length (StorageKeys t)"
  by (simp add: StorageKeysCount_def sum_list_replicate)

lemma StorageKeysCount_append:
  "StorageKeysCount (al @ al') = StorageKeysCount al + StorageKeysCount al'"
  by (simp add: StorageKeysCount_def)





section \<open>Intrinsic gas of inputs that fit in memory\<close>









section \<open>Claims about IntrinsicGas\<close>

text \<open>
  The bound on the access list is needed. The two access-list additions of
  \<^verbatim>\<open>IntrinsicGas\<close> are plain \<^verbatim>\<open>gas += ...\<close>, unlike the three payload additions, and
  with more tuples than memory can hold they wrap.
\<close>

lemma IntrinsicGas_access_list_unchecked:
  "\<not> fits_in_memory []
       (Some (replicate 7686143364045638 \<lparr> Address = 0, StorageKeys = [] \<rparr>))
   \<and> IntrinsicGas protocol_params []
        (Some (replicate 7686143364045638 \<lparr> Address = 0, StorageKeys = [] \<rparr>))
        False True True True = Inr 584"
  by (simp add: IntrinsicGas_def protocol_params_def StorageKeysCount_replicate
        fits_in_memory_def accessListLen_def)





section \<open>Claims about the deposit transaction\<close>

text \<open>
  C9. For every deposit transaction and all arguments, \<^verbatim>\<open>rawSignatureValues\<close> and
  \<^verbatim>\<open>setSignatureValues\<close> panic and never return a value.
\<close>

theorem DepositTx_signature_accessors_panic:
  "rawSignatureValues tx = Panics ''deposit tx does not have a signature''
   \<and> setSignatureValues tx chainID v r s = Panics ''deposit tx does not have a signature''
   \<and> (\<nexists>x. rawSignatureValues tx = Returns x)
   \<and> (\<nexists>y. setSignatureValues tx chainID v r s = Returns y)"
  by (simp add: rawSignatureValues_def setSignatureValues_def)

section \<open>Gas purchase\<close>

lemmas example_defs =
  example_evm_def example_sharding_evm_def example_msg_def example_blob_msg_def
  example_deposit_def example_state_def example_pool_def example_blob_pool_def
  example_call_def example_create_def protocol_params_def

lemma buyGas_cases:
  "buyGas p evm msg st = (r, st') \<Longrightarrow>
     (r \<noteq> None \<and> st' = st)
   \<or> (r = Some ErrDataGasLimitReached \<and> Gas msg \<le> remainingGas (gp st)
       \<and> st' = st\<lparr>gp := (gp st)\<lparr>remainingGas := remainingGas (gp st) - Gas msg\<rparr>,
                   gasRemaining := gasRemaining st + Gas msg\<rparr>)
   \<or> (r = None \<and> Gas msg \<le> remainingGas (gp st)
       \<and> (if ChainIsSharding evm then dataGasUsed p msg else 0) \<le> remainingDataGas (gp st)
       \<and> st' = st\<lparr>gp := (gp st)\<lparr>remainingGas := remainingGas (gp st) - Gas msg,
                     remainingDataGas := remainingDataGas (gp st)
                        - (if ChainIsSharding evm then dataGasUsed p msg else 0)\<rparr>,
                   gasRemaining := gasRemaining st + Gas msg,
                   state := SubBalance (state st) (From msg)
                     (uint (Gas msg) * GasPrice msg
                      + (case L1CostFunc evm of None \<Rightarrow> 0
                         | Some f \<Rightarrow> (case f (Uint64 (BlockNumber evm)) msg of
                                       None \<Rightarrow> 0 | Some c \<Rightarrow> c))
                      + (if ChainIsSharding evm
                         then GetDataGasPrice evm (ExcessDataGas evm) * uint (dataGasUsed p msg)
                         else 0))\<rparr>)"
  unfolding buyGas_def Let_def SubGas_def SubDataGas_def
  by (auto split: if_splits option.splits sum.splits simp: not_less)


lemma preCheck_nondeposit:
  assumes "\<not> IsDepositTx msg" and "preCheck p evm msg st = Returns (r, st')"
  shows "(r \<noteq> None \<and> st' = st) \<or> buyGas p evm msg st = (r, st')"
proof (cases "preCheckNonce msg st")
  case (Some e)
  then have "preCheck p evm msg st = Returns (Some e, st)"
    using assms(1) by (simp add: preCheck_def)
  with assms(2) show ?thesis by auto
next
  case n: None
  show ?thesis
  proof (cases "preCheckFees evm msg")
    case (Panics m)
    then show ?thesis using assms n by (auto simp: preCheck_def)
  next
    case f: (Returns fe)
    show ?thesis
    proof (cases fe)
      case (Some e)
      then show ?thesis using assms n f by (auto simp: preCheck_def)
    next
      case fn: None
      show ?thesis
      proof (cases "preCheckDataGas p evm msg")
        case (Panics m)
        then show ?thesis using assms n f fn by (auto simp: preCheck_def)
      next
        case d: (Returns de)
        show ?thesis
          using assms n f fn d by (cases de) (auto simp: preCheck_def)
      qed
    qed
  qed
qed

text \<open>
  C1. The claim: if \<^verbatim>\<open>buyGas\<close> returns an error, the sender's balance is unchanged and no
  partial consumption of the block gas pool or of the data-gas pool survives; the balance
  is debited only after both pool subtractions have succeeded. The source subtracts the
  gas limit from the block gas pool, adds it to the remaining gas, and then returns the
  error of \<^verbatim>\<open>SubDataGas\<close> without putting either back. With a blob message of gas
  limit 30000, a block gas pool of 100000 and an empty data-gas pool, \<^verbatim>\<open>buyGas\<close> fails
  and leaves 70000 in the block gas pool.
\<close>

theorem buyGas_gas_pool_consumption_survives:
  "fst (buyGas protocol_params example_sharding_evm example_blob_msg
          \<lparr> gp = example_pool, gasRemaining = 0, state = example_state \<rparr>)
     = Some ErrDataGasLimitReached
   \<and> remainingGas (gp (snd (buyGas protocol_params example_sharding_evm example_blob_msg
          \<lparr> gp = example_pool, gasRemaining = 0, state = example_state \<rparr>))) = 70000
   \<and> remainingGas example_pool = 100000"
  by (simp add: buyGas_def example_defs SubGas_def SubDataGas_def dataGasUsed_def
        GetBalance_def Let_def)

text \<open>
  C1, as the code has it: if \<^verbatim>\<open>buyGas\<close> returns an error, the ledger (so the sender's
  balance) and the data-gas pool are unchanged, and either the whole transition is
  unchanged or the error is that of the data-gas pool and the gas limit stays subtracted
  from the block gas pool and added to the remaining gas. The ledger changes only when
  \<^verbatim>\<open>buyGas\<close> returns no error, and then both pool subtractions have succeeded.
\<close>

theorem buyGas_failure_effects:
  "(buyGas p evm msg st = (Some err, st') \<longrightarrow>
      state st' = state st
      \<and> remainingDataGas (gp st') = remainingDataGas (gp st)
      \<and> (st' = st
         \<or> err = ErrDataGasLimitReached
           \<and> Gas msg \<le> remainingGas (gp st)
           \<and> remainingGas (gp st') = remainingGas (gp st) - Gas msg
           \<and> gasRemaining st' = gasRemaining st + Gas msg))
   \<and> (state (snd (buyGas p evm msg st)) \<noteq> state st \<longrightarrow>
        fst (buyGas p evm msg st) = None
        \<and> Gas msg \<le> remainingGas (gp st)
        \<and> (if ChainIsSharding evm then dataGasUsed p msg else 0) \<le> remainingDataGas (gp st))"
proof -
  obtain r st'' where b: "buyGas p evm msg st = (r, st'')" by (cases "buyGas p evm msg st")
  from buyGas_cases [OF b] show ?thesis
    unfolding b by (elim disjE) auto
qed

theorem buyGas_failure_effects_witness:
  "buyGas protocol_params example_sharding_evm example_blob_msg
      \<lparr> gp = example_pool, gasRemaining = 0, state = example_state \<rparr>
    = (Some ErrDataGasLimitReached,
       \<lparr> gp = \<lparr> remainingGas = 70000, remainingDataGas = 0 \<rparr>, gasRemaining = 30000,
         state = example_state \<rparr>)
   \<and> state (snd (buyGas protocol_params example_sharding_evm example_blob_msg
        \<lparr> gp = example_blob_pool, gasRemaining = 0, state = example_state \<rparr>)) \<noteq> example_state
   \<and> fst (buyGas protocol_params example_sharding_evm example_blob_msg
        \<lparr> gp = example_blob_pool, gasRemaining = 0, state = example_state \<rparr>) = None"
proof -
  have f: "buyGas protocol_params example_sharding_evm example_blob_msg
      \<lparr> gp = example_pool, gasRemaining = 0, state = example_state \<rparr>
    = (Some ErrDataGasLimitReached,
       \<lparr> gp = \<lparr> remainingGas = 70000, remainingDataGas = 0 \<rparr>, gasRemaining = 30000,
         state = example_state \<rparr>)"
    by (simp add: buyGas_def example_defs SubGas_def SubDataGas_def dataGasUsed_def
          GetBalance_def Let_def)
  have g: "Balance (state (snd (buyGas protocol_params example_sharding_evm example_blob_msg
        \<lparr> gp = example_blob_pool, gasRemaining = 0, state = example_state \<rparr>))) 1 = 838921"
    by (simp add: buyGas_def example_defs SubGas_def SubDataGas_def dataGasUsed_def
          GetBalance_def SubBalance_def Let_def Uint64_def)
  have "Balance example_state 1 = 1000000" by (simp add: example_state_def)
  with g have h: "state (snd (buyGas protocol_params example_sharding_evm example_blob_msg
        \<lparr> gp = example_blob_pool, gasRemaining = 0, state = example_state \<rparr>)) \<noteq> example_state"
    by auto
  show ?thesis
    using f h
      buyGas_failure_effects [of protocol_params example_sharding_evm example_blob_msg
        "\<lparr> gp = example_pool, gasRemaining = 0, state = example_state \<rparr>"
        ErrDataGasLimitReached
        "\<lparr> gp = \<lparr> remainingGas = 70000, remainingDataGas = 0 \<rparr>, gasRemaining = 30000,
           state = example_state \<rparr>"]
      buyGas_failure_effects [of protocol_params example_sharding_evm example_blob_msg
        "\<lparr> gp = example_blob_pool, gasRemaining = 0, state = example_state \<rparr>"]
    by simp
qed

text \<open>
  C5. For every message that is not a deposit (fake or not), if \<^verbatim>\<open>preCheck\<close> succeeds the
  sender's balance has decreased by exactly gas limit times gas price, plus the data-gas
  cost (data gas used times the current data-gas price) when sharding is active, plus the
  L1 cost when the L1 cost function is set and returns one. No other balance changes.
\<close>

theorem preCheck_debits_sender:
  assumes nd: "\<not> IsDepositTx msg"
    and ok: "preCheck p evm msg st = Returns (None, st')"
  shows "GetBalance (state st') (From msg) =
           GetBalance (state st) (From msg)
           - (uint (Gas msg) * GasPrice msg
              + (if ChainIsSharding evm
                 then uint (dataGasUsed p msg) * GetDataGasPrice evm (ExcessDataGas evm)
                 else 0)
              + (case L1CostFunc evm of
                   None \<Rightarrow> 0
                 | Some f \<Rightarrow> (case f (Uint64 (BlockNumber evm)) msg of
                                 None \<Rightarrow> 0 | Some l1Cost \<Rightarrow> l1Cost)))
         \<and> (\<forall>a. a \<noteq> From msg \<longrightarrow> GetBalance (state st') a = GetBalance (state st) a)"
proof -
  from preCheck_nondeposit [OF nd ok] have b: "buyGas p evm msg st = (None, st')" by simp
  from buyGas_cases [OF b] show ?thesis
    by (auto simp: GetBalance_def SubBalance_def)
qed

theorem preCheck_debits_sender_witness:
  "\<not> IsDepositTx example_blob_msg
   \<and> (\<exists>st'. preCheck protocol_params example_sharding_evm example_blob_msg
        \<lparr> gp = example_blob_pool, gasRemaining = 0, state = example_state \<rparr> = Returns (None, st')
        \<and> GetBalance (state st') 1 = 1000000 - (30000 * 1 + 131072 * 1 + 7))"
proof -
  have nd: "\<not> IsDepositTx example_blob_msg" by (simp add: example_defs)
  obtain st' where st': "st' = snd (buyGas protocol_params example_sharding_evm example_blob_msg
        \<lparr> gp = example_blob_pool, gasRemaining = 0, state = example_state \<rparr>)" by simp
  have b: "fst (buyGas protocol_params example_sharding_evm example_blob_msg
        \<lparr> gp = example_blob_pool, gasRemaining = 0, state = example_state \<rparr>) = None"
    by (simp add: buyGas_def example_defs SubGas_def SubDataGas_def dataGasUsed_def
          GetBalance_def Let_def)
  have ok: "preCheck protocol_params example_sharding_evm example_blob_msg
        \<lparr> gp = example_blob_pool, gasRemaining = 0, state = example_state \<rparr> = Returns (None, st')"
    unfolding preCheck_def st' b [symmetric]
    by (simp add: example_defs preCheckNonce_def preCheckFees_def preCheckDataGas_def
          dataGasUsed_def GetNonce_def GetCodeHash_def)
  from preCheck_debits_sender [OF nd ok] ok show ?thesis
    by (auto simp: example_defs GetBalance_def dataGasUsed_def Uint64_def)
qed

section \<open>Refund settlement\<close>

lemma refundGas_gasRemaining:
  "gasRemaining (refundGas msg q st) =
     gasRemaining st + min (gasUsed msg st div q) (GetRefund (state st))"
proof (cases "gasUsed msg st div q > GetRefund (state st)")
  case True
  then have "min (gasUsed msg st div q) (GetRefund (state st)) = GetRefund (state st)"
    by (simp add: min_absorb2 less_imp_le)
  then show ?thesis using True by (simp add: refundGas_def Let_def)
next
  case False
  then have "min (gasUsed msg st div q) (GetRefund (state st)) = gasUsed msg st div q"
    by (simp add: min_absorb1 not_less)
  then show ?thesis using False by (simp add: refundGas_def Let_def)
qed

lemma refundGas_state:
  "state (refundGas msg q st) =
     AddBalance (state st) (From msg) (uint (gasRemaining (refundGas msg q st)) * GasPrice msg)"
  by (simp add: refundGas_def Let_def)

lemma refundGas_gp:
  "gp (refundGas msg q st) = AddGas (gp st) (gasRemaining (refundGas msg q st))"
  by (simp add: refundGas_def Let_def)

lemma settle_refund:
  "settle evm msg rules ret vmerr st =
     payFees evm msg rules ret vmerr (refundGas msg (if IsLondon rules then 5 else 2) st)"
  by (cases "IsLondon rules")
     (simp_all add: settle_def RefundQuotient_def RefundQuotientEIP3529_def)

text \<open>
  C7. Settlement of a message that is not a deposit starts with \<^verbatim>\<open>refundGas\<close>, called
  with the quotient 2 before London and 5 from London on. \<^verbatim>\<open>refundGas\<close> adds
  \<open>min (gasUsed div quotient) (refund counter)\<close> to the remaining gas, credits the sender
  with the new remaining gas times the \<^verbatim>\<open>GasPrice\<close> of the message, and adds the new
  remaining gas to the block gas pool.
\<close>

theorem refundGas_settlement:
  "settle evm msg rules ret vmerr st =
     payFees evm msg rules ret vmerr (refundGas msg (if IsLondon rules then 5 else 2) st)
   \<and> gasRemaining (refundGas msg q st) =
       gasRemaining st + min (gasUsed msg st div q) (GetRefund (state st))
   \<and> state (refundGas msg q st) =
       AddBalance (state st) (From msg) (uint (gasRemaining (refundGas msg q st)) * GasPrice msg)
   \<and> gp (refundGas msg q st) = AddGas (gp st) (gasRemaining (refundGas msg q st))"
  using settle_refund refundGas_gasRemaining refundGas_state refundGas_gp by blast



section \<open>The inner pipeline\<close>

lemma execute_leftover:
  assumes "vm_returns_leftover evm"
  shows "fst (snd (execute evm msg st)) \<le> gasRemaining st"
proof (cases "To msg = None")
  case True
  obtain ret a l e s' where c: "Create evm (state st) (From msg) (Data msg) (gasRemaining st)
      (Value msg) = (ret, a, l, e, s')" by (metis prod_cases5)
  have "fst (snd (snd (Create evm (state st) (From msg) (Data msg) (gasRemaining st)
      (Value msg)))) \<le> gasRemaining st"
    using assms unfolding vm_returns_leftover_def by blast
  then show ?thesis using True c by (simp add: execute_def)
next
  case False
  have "fst (snd (Call evm (SetNonce (state st) (From msg) (GetNonce (state st) (From msg) + 1))
          (From msg) (to msg) (Data msg) (gasRemaining st) (Value msg))) \<le> gasRemaining st"
    using assms unfolding vm_returns_leftover_def by blast
  then show ?thesis using False by (auto simp: execute_def)
qed

lemma rollupFees_frame:
  assumes "rollupFees evm msg rules st = Returns st'"
  shows "gasRemaining st' = gasRemaining st \<and> gp st' = gp st
         \<and> Refund (state st') = Refund (state st)"
  using assms unfolding rollupFees_def Let_def nilDereference_def AddBalance_def
  by (auto split: if_splits option.splits)

lemma payFees_result:
  assumes "payFees evm msg rules ret vmerr st1 = Returns (res, err, st')"
  shows "err = None
         \<and> res = Some \<lparr> UsedGas = gasUsed msg st', Err = vmerr, ReturnData = ret \<rparr>
         \<and> gasRemaining st' = gasRemaining st1 \<and> gp st' = gp st1
         \<and> Refund (state st') = Refund (state st1)"
proof (cases "effectiveTip evm msg rules")
  case (Panics m)
  then show ?thesis using assms by (simp add: payFees_def)
next
  case t: (Returns tip)
  show ?thesis
  proof (cases "skipFeePayment evm msg")
    case (Panics m)
    then show ?thesis using assms t by (simp add: payFees_def)
  next
    case k: (Returns skip)
    define st2 where "st2 = (if skip then st1
                           else st1\<lparr>state := AddBalance (state st1) (Coinbase evm)
                                                 (uint (gasUsed msg st1) * tip)\<rparr>)"
    have f2: "gasRemaining st2 = gasRemaining st1 \<and> gp st2 = gp st1
              \<and> Refund (state st2) = Refund (state st1)"
      by (simp add: st2_def AddBalance_def)
    show ?thesis
    proof (cases "rollupFees evm msg rules st2")
      case (Panics m)
      then show ?thesis using assms t k by (simp add: payFees_def st2_def [symmetric])
    next
      case r: (Returns st3)
      from rollupFees_frame [OF r] f2 assms t k r show ?thesis
        by (auto simp: payFees_def st2_def [symmetric])
    qed
  qed
qed

lemma settle_result:
  assumes "settle evm msg rules ret vmerr st = Returns (res, err, st')"
  shows "err = None
         \<and> res = Some \<lparr> UsedGas = Gas msg - gasRemaining st', Err = vmerr, ReturnData = ret \<rparr>
         \<and> gasRemaining st' = gasRemaining st
              + min ((Gas msg - gasRemaining st) div (if IsLondon rules then 5 else 2))
                    (Refund (state st))
         \<and> remainingGas (gp st') = remainingGas (gp st) + gasRemaining st'
         \<and> remainingDataGas (gp st') = remainingDataGas (gp st)
         \<and> Refund (state st') = Refund (state st)"
proof -
  let ?q = "if IsLondon rules then 5 else 2 :: uint64"
  have "payFees evm msg rules ret vmerr (refundGas msg ?q st) = Returns (res, err, st')"
    using assms by (simp only: settle_refund)
  from payFees_result [OF this] show ?thesis
    by (simp add: refundGas_gasRemaining refundGas_gp refundGas_state gasUsed_def
          AddGas_def AddBalance_def GetRefund_def)
qed


lemma TransitionDb_nondeposit:
  assumes "\<not> IsDepositTx msg"
  shows "TransitionDb p evm msg st =
           innerTransitionDb p evm msg
             (case Mint msg of None \<Rightarrow> st
              | Some mint \<Rightarrow> st\<lparr>state := AddBalance (state st) (From msg) mint\<rparr>)"
  using assms unfolding TransitionDb_def Let_def
  by (auto split: outcome.splits option.splits prod.splits)

lemma innerTransitionDb_settled:
  assumes nd: "\<not> IsDepositTx msg"
    and run: "innerTransitionDb p evm msg st = Returns (res, None, st')"
  shows "\<exists>st1 g ret leftOver vmerr s'.
           buyGas p evm msg st = (None, st1)
         \<and> IntrinsicGas p (Data msg) (AccessList msg) (To msg = None)
              (IsHomestead (ChainRules evm)) (IsIstanbul (ChainRules evm))
              (IsShanghai (ChainRules evm)) = Inr g
         \<and> g \<le> gasRemaining st1
         \<and> (vm_returns_leftover evm \<longrightarrow> leftOver \<le> gasRemaining st1 - g)
         \<and> settle evm msg (ChainRules evm) ret vmerr
              (st1\<lparr>gasRemaining := leftOver, state := s'\<rparr>) = Returns (res, None, st')"
proof (cases "preCheck p evm msg st")
  case (Panics m)
  then show ?thesis using run by (simp add: innerTransitionDb_def)
next
  case pc: (Returns pr)
  obtain r st1 where pr: "pr = (r, st1)" by (cases pr)
  show ?thesis
  proof (cases r)
    case (Some e)
    then show ?thesis using run pc pr by (simp add: innerTransitionDb_def)
  next
    case rn: None
    have buy: "buyGas p evm msg st = (None, st1)"
      using preCheck_nondeposit [OF nd pc [unfolded pr]] rn by simp
    let ?ig = "IntrinsicGas p (Data msg) (AccessList msg) (To msg = None)
              (IsHomestead (ChainRules evm)) (IsIstanbul (ChainRules evm))
              (IsShanghai (ChainRules evm))"
    show ?thesis
    proof (cases ?ig)
      case (Inl e)
      then show ?thesis using run pc pr rn by (simp add: innerTransitionDb_def Let_def)
    next
      case ig: (Inr g)
      show ?thesis
      proof (cases "gasRemaining st1 < g")
        case True
        then show ?thesis using run pc pr rn ig by (simp add: innerTransitionDb_def Let_def)
      next
        case ge: False
        define st2 where "st2 = st1\<lparr>gasRemaining := gasRemaining st1 - g\<rparr>"
        define st3 where "st3 = st2\<lparr>state := Prepare evm msg (state st2)\<rparr>"
        obtain ret leftOver vmerr s' where ex: "execute evm msg st3 = (ret, leftOver, vmerr, s')"
          by (metis prod_cases4)
        have lo: "vm_returns_leftover evm \<longrightarrow> leftOver \<le> gasRemaining st1 - g"
          using execute_leftover [of evm msg st3] ex by (simp add: st3_def st2_def)
        have st4: "st3\<lparr>gasRemaining := leftOver, state := s'\<rparr>
                   = st1\<lparr>gasRemaining := leftOver, state := s'\<rparr>"
          by (simp add: st3_def st2_def)
        have "settle evm msg (ChainRules evm) ret vmerr
                (st3\<lparr>gasRemaining := leftOver, state := s'\<rparr>) = Returns (res, None, st')"
          using run pc pr rn ig ge nd ex
          by (simp add: innerTransitionDb_def Let_def st2_def [symmetric] st3_def [symmetric]
                split: if_splits)
        then show ?thesis using buy ig ge lo st4 by (auto simp: not_less)
      qed
    qed
  qed
qed

lemma innerTransitionDb_error_no_result:
  assumes "innerTransitionDb p evm msg st = Returns (res, Some err, st')"
  shows "res = None"
proof (cases "preCheck p evm msg st")
  case (Panics m)
  then show ?thesis using assms by (simp add: innerTransitionDb_def)
next
  case pc: (Returns pr)
  obtain r st1 where pr: "pr = (r, st1)" by (cases pr)
  show ?thesis
  proof (cases r)
    case (Some e)
    then show ?thesis using assms pc pr by (simp add: innerTransitionDb_def)
  next
    case rn: None
    let ?ig = "IntrinsicGas p (Data msg) (AccessList msg) (To msg = None)
              (IsHomestead (ChainRules evm)) (IsIstanbul (ChainRules evm))
              (IsShanghai (ChainRules evm))"
    show ?thesis
    proof (cases ?ig)
      case (Inl e)
      then show ?thesis using assms pc pr rn by (simp add: innerTransitionDb_def Let_def)
    next
      case ig: (Inr g)
      show ?thesis
      proof (cases "gasRemaining st1 < g")
        case True
        then show ?thesis using assms pc pr rn ig by (simp add: innerTransitionDb_def Let_def)
      next
        case ge: False
        define st2 where "st2 = st1\<lparr>gasRemaining := gasRemaining st1 - g\<rparr>"
        define st3 where "st3 = st2\<lparr>state := Prepare evm msg (state st2)\<rparr>"
        obtain ret leftOver vmerr s' where ex: "execute evm msg st3 = (ret, leftOver, vmerr, s')"
          by (metis prod_cases4)
        show ?thesis
          using assms pc pr rn ig ge ex
          by (auto simp: innerTransitionDb_def Let_def st2_def [symmetric] st3_def [symmetric]
                split: if_splits dest: settle_result)
      qed
    qed
  qed
qed

lemma sub_div_mono:
  fixes b x k :: nat
  assumes le: "b \<le> x" and k: "0 < k"
  shows "b - b div k \<le> x - x div k"
proof (rule lift_Suc_mono_le [OF _ le])
  fix n :: nat
  have "Suc n \<le> n + k" using k by simp
  then have "Suc n div k \<le> (n + k) div k" by (rule div_le_mono)
  also have "\<dots> = Suc (n div k)" using k by (simp add: div_add_self2)
  finally have "Suc n div k \<le> Suc (n div k)" .
  moreover have "n div k \<le> n" by (rule div_le_dividend)
  ultimately show "n - n div k \<le> Suc n - Suc n div k" by arith
qed

lemma gas_accounting:
  fixes G g L R q pool :: uint64
  assumes g: "g \<le> G" and L: "L \<le> G - g" and pool: "G \<le> pool" and q: "q \<noteq> 0"
  defines "left \<equiv> L + min ((G - L) div q) R"
  shows "G - left \<le> G"
    and "unat g - unat g div unat q \<le> unat (G - left)"
    and "unat g \<le> unat (G - left) + unat R"
    and "unat (pool - G + left) + unat (G - left) = unat pool"
proof -
  have k: "0 < unat q" using q by (simp add: unat_gt_0)
  have Gg: "unat (G - g) = unat G - unat g" using g by (simp add: unat_sub)
  have l: "unat L \<le> unat G - unat g" using L Gg by (simp add: word_le_nat_alt)
  then have LG: "L \<le> G" by (simp add: word_le_nat_alt)
  have GL: "unat (G - L) = unat G - unat L" using LG by (simp add: unat_sub)
  have b: "unat g \<le> unat G" using g by (simp add: word_le_nat_alt)
  define m where "m = min ((G - L) div q) R"
  have m1: "unat m \<le> (unat G - unat L) div unat q"
  proof -
    have "m \<le> (G - L) div q" by (simp add: m_def)
    then show ?thesis by (simp add: word_le_nat_alt unat_div GL)
  qed
  have m2: "unat m \<le> unat R"
  proof -
    have "m \<le> R" by (simp add: m_def)
    then show ?thesis by (simp add: word_le_nat_alt)
  qed
  have m3: "unat m \<le> unat G - unat L"
    using m1 div_le_dividend [of "unat G - unat L" "unat q"] by linarith
  have G64: "unat G < 2 ^ 64" using unsigned_less [of G, where ?'a = nat] by simp
  have left: "unat left = unat L + unat m"
    unfolding left_def m_def [symmetric] using m3 l G64 by (simp add: unat_word_ariths)
  have leftG: "left \<le> G" using left m3 l by (simp add: word_le_nat_alt)
  have used: "unat (G - left) = unat G - unat L - unat m"
    using leftG left by (simp add: unat_sub)
  show "G - left \<le> G" using used by (simp add: word_le_nat_alt)
  have "unat g - unat g div unat q \<le> (unat G - unat L) - (unat G - unat L) div unat q"
    using l b k by (intro sub_div_mono) auto
  then show "unat g - unat g div unat q \<le> unat (G - left)"
    using used m1 by linarith
  show "unat g \<le> unat (G - left) + unat R" using used m2 m3 l b by linarith
  have P: "unat (pool - G) = unat pool - unat G" using pool by (simp add: unat_sub)
  have Pb: "unat G \<le> unat pool" using pool by (simp add: word_le_nat_alt)
  have P64: "unat pool < 2 ^ 64" using unsigned_less [of pool, where ?'a = nat] by simp
  have "unat (pool - G + left) = unat pool - unat G + (unat L + unat m)"
    using P left Pb P64 m3 l by (simp add: unat_word_ariths)
  then show "unat (pool - G + left) + unat (G - left) = unat pool"
    using used Pb m3 l b by linarith
qed

lemma ApplyMessage_accounting:
  assumes nd: "\<not> IsDepositTx msg" and vm: "vm_returns_leftover evm"
    and run: "ApplyMessage p evm msg pool s = Returns (res, None, st')"
  shows "\<exists>g L. IntrinsicGas p (Data msg) (AccessList msg) (To msg = None)
              (IsHomestead (ChainRules evm)) (IsIstanbul (ChainRules evm))
              (IsShanghai (ChainRules evm)) = Inr g
         \<and> g \<le> Gas msg \<and> L \<le> Gas msg - g \<and> Gas msg \<le> remainingGas pool
         \<and> gasRemaining st' =
             L + min ((Gas msg - L) div (if IsLondon (ChainRules evm) then 5 else 2))
                     (Refund (state st'))
         \<and> (\<exists>vmerr ret. res = Some \<lparr> UsedGas = Gas msg - gasRemaining st', Err = vmerr,
                                       ReturnData = ret \<rparr>)
         \<and> remainingGas (gp st') = remainingGas pool - Gas msg + gasRemaining st'"
proof -
  define st0 where "st0 = (case Mint msg of None \<Rightarrow> NewStateTransition pool s
              | Some mint \<Rightarrow> (NewStateTransition pool s)\<lparr>state :=
                  AddBalance (state (NewStateTransition pool s)) (From msg) mint\<rparr>)"
  have st0: "gasRemaining st0 = 0" "gp st0 = pool"
    by (simp_all add: st0_def NewStateTransition_def split: option.splits)
  have "innerTransitionDb p evm msg st0 = Returns (res, None, st')"
    using run TransitionDb_nondeposit [OF nd, of p evm "NewStateTransition pool s"]
    by (simp add: ApplyMessage_def st0_def)
  from innerTransitionDb_settled [OF nd this] vm
  obtain st1 g ret L vmerr s' where
    buy: "buyGas p evm msg st0 = (None, st1)" and
    ig: "IntrinsicGas p (Data msg) (AccessList msg) (To msg = None)
              (IsHomestead (ChainRules evm)) (IsIstanbul (ChainRules evm))
              (IsShanghai (ChainRules evm)) = Inr g" and
    g: "g \<le> gasRemaining st1" and L: "L \<le> gasRemaining st1 - g" and
    se: "settle evm msg (ChainRules evm) ret vmerr
              (st1\<lparr>gasRemaining := L, state := s'\<rparr>) = Returns (res, None, st')"
    by blast
  from buyGas_cases [OF buy] st0
  have b: "Gas msg \<le> remainingGas pool" "gasRemaining st1 = Gas msg"
    "remainingGas (gp st1) = remainingGas pool - Gas msg"
    by auto
  from settle_result [OF se] b g L ig show ?thesis
    by (intro exI [of _ g] exI [of _ L]) auto
qed

lemmas engine_defs =
  ApplyMessage_def NewStateTransition_def TransitionDb_def innerTransitionDb_def preCheck_def
  preCheckNonce_def preCheckFees_def preCheckDataGas_def buyGas_def dataGasUsed_def
  execute_def settle_def payFees_def refundGas_def effectiveTip_def skipFeePayment_def
  rollupFees_def gasUsed_def to_def IntrinsicGas_def
  SubGas_def AddGas_def SubDataGas_def GetBalance_def AddBalance_def SubBalance_def
  GetNonce_def SetNonce_def GetCodeHash_def GetRefund_def Snapshot_def RevertToSnapshot_def
  RefundQuotient_def RefundQuotientEIP3529_def Uint64_def Let_def

lemma example_vm_returns_leftover: "vm_returns_leftover example_evm"
  by (auto simp: vm_returns_leftover_def example_defs word_sub_le not_less)

lemma example_run:
  "\<exists>st'. ApplyMessage protocol_params example_evm example_msg example_pool example_state
     = Returns (Some \<lparr> UsedGas = 13000, Err = None, ReturnData = [] \<rparr>, None, st')
     \<and> remainingGas (gp st') = 87000 \<and> GetRefund (state st') = 15000"
  by (simp add: engine_defs example_defs)

section \<open>Claims about used gas and the gas pool\<close>

text \<open>
  C3. The claim: for every message that is not a deposit and whose transition completes
  without a consensus error, the reported \<^verbatim>\<open>UsedGas\<close> is at most the gas limit and at
  least the intrinsic gas. The refund is taken from all the gas used, the intrinsic gas
  included: a transfer with gas limit 30000 whose call uses 5000 gas and earns a refund of
  15000 has used 26000 gas, is refunded 13000, and reports 13000, below its intrinsic gas
  of 21000.
\<close>

theorem usedGas_below_intrinsic_gas:
  "\<not> IsDepositTx example_msg
   \<and> vm_returns_leftover example_evm
   \<and> consensusErrorOf (ApplyMessage protocol_params example_evm example_msg example_pool
        example_state) = None
   \<and> map_option UsedGas (resultOf (ApplyMessage protocol_params example_evm example_msg
        example_pool example_state)) = Some 13000
   \<and> IntrinsicGas protocol_params (Data example_msg) (AccessList example_msg)
        (To example_msg = None) (IsHomestead (ChainRules example_evm))
        (IsIstanbul (ChainRules example_evm)) (IsShanghai (ChainRules example_evm))
      = Inr 21000"
proof -
  obtain st' where "ApplyMessage protocol_params example_evm example_msg example_pool
      example_state = Returns (Some \<lparr> UsedGas = 13000, Err = None, ReturnData = [] \<rparr>, None, st')"
    using example_run by blast
  then show ?thesis
    using example_vm_returns_leftover
    by (simp add: resultOf_def consensusErrorOf_def)
       (simp add: example_defs IntrinsicGas_def)
qed

text \<open>
  C3, as the code has it: for a message that is not a deposit, run through
  \<^verbatim>\<open>ApplyMessage\<close> on a machine that hands back at most the gas it is given, a
  transition that completes without a consensus error reports a \<^verbatim>\<open>UsedGas\<close> that is at
  most the gas limit, at least the intrinsic gas less its share \<open>1 / quotient\<close> (the
  quotient is 2 before London and 5 from London on), and at least the intrinsic gas less
  the refund counter of the ledger.
\<close>

theorem usedGas_bounds:
  assumes nd: "\<not> IsDepositTx msg" and vm: "vm_returns_leftover evm"
    and run: "ApplyMessage p evm msg pool s = Returns (Some res, None, st')"
  shows "UsedGas res \<le> Gas msg
         \<and> (\<exists>g. IntrinsicGas p (Data msg) (AccessList msg) (To msg = None)
                  (IsHomestead (ChainRules evm)) (IsIstanbul (ChainRules evm))
                  (IsShanghai (ChainRules evm)) = Inr g
              \<and> unat g - unat g div (if IsLondon (ChainRules evm) then 5 else 2)
                   \<le> unat (UsedGas res)
              \<and> unat g \<le> unat (UsedGas res) + unat (GetRefund (state st')))"
proof -
  let ?q = "if IsLondon (ChainRules evm) then 5 else 2 :: uint64"
  from ApplyMessage_accounting [OF nd vm run]
  obtain g L where
    ig: "IntrinsicGas p (Data msg) (AccessList msg) (To msg = None)
              (IsHomestead (ChainRules evm)) (IsIstanbul (ChainRules evm))
              (IsShanghai (ChainRules evm)) = Inr g" and
    g: "g \<le> Gas msg" and L: "L \<le> Gas msg - g" and pool: "Gas msg \<le> remainingGas pool" and
    left: "gasRemaining st' = L + min ((Gas msg - L) div ?q) (Refund (state st'))" and
    used: "UsedGas res = Gas msg - gasRemaining st'"
    by auto
  have q: "?q \<noteq> 0" by simp
  have uq: "unat ?q = (if IsLondon (ChainRules evm) then 5 else 2)" by simp
  note acc = gas_accounting [OF g L pool q, of "Refund (state st')", folded left used]
  show ?thesis
    using acc(1) acc(2) acc(3) ig unfolding uq by (auto simp: GetRefund_def)
qed

theorem usedGas_bounds_witness:
  "\<not> IsDepositTx example_msg \<and> vm_returns_leftover example_evm
   \<and> (\<exists>res st'. ApplyMessage protocol_params example_evm example_msg example_pool example_state
          = Returns (Some res, None, st')
        \<and> UsedGas res = 13000 \<and> UsedGas res \<le> Gas example_msg
        \<and> (\<exists>g. IntrinsicGas protocol_params (Data example_msg) (AccessList example_msg)
                  (To example_msg = None) (IsHomestead (ChainRules example_evm))
                  (IsIstanbul (ChainRules example_evm)) (IsShanghai (ChainRules example_evm))
                = Inr g
              \<and> unat g - unat g div 2 \<le> unat (UsedGas res)))"
proof -
  have nd: "\<not> IsDepositTx example_msg" by (simp add: example_defs)
  obtain st' where run: "ApplyMessage protocol_params example_evm example_msg example_pool
      example_state = Returns (Some \<lparr> UsedGas = 13000, Err = None, ReturnData = [] \<rparr>, None, st')"
    using example_run by blast
  have l: "\<not> IsLondon (ChainRules example_evm)" by (simp add: example_defs)
  from usedGas_bounds [OF nd example_vm_returns_leftover run] nd example_vm_returns_leftover run l
  show ?thesis by auto
qed

text \<open>
  C10. For a message that is not a deposit, run through \<^verbatim>\<open>ApplyMessage\<close> on a machine
  that hands back at most the gas it is given, a transition that completes without a
  consensus error leaves the ordinary-gas counter of the block gas pool lower by exactly
  the reported \<^verbatim>\<open>UsedGas\<close>.
\<close>

theorem gas_pool_conservation:
  assumes nd: "\<not> IsDepositTx msg" and vm: "vm_returns_leftover evm"
    and run: "ApplyMessage p evm msg pool s = Returns (Some res, None, st')"
  shows "remainingGas (gp st') \<le> remainingGas pool
         \<and> unat (remainingGas pool) - unat (remainingGas (gp st')) = unat (UsedGas res)
         \<and> remainingGas pool - remainingGas (gp st') = UsedGas res"
proof -
  let ?q = "if IsLondon (ChainRules evm) then 5 else 2 :: uint64"
  from ApplyMessage_accounting [OF nd vm run]
  obtain g L where
    g: "g \<le> Gas msg" and L: "L \<le> Gas msg - g" and pool: "Gas msg \<le> remainingGas pool" and
    left: "gasRemaining st' = L + min ((Gas msg - L) div ?q) (Refund (state st'))" and
    used: "UsedGas res = Gas msg - gasRemaining st'" and
    gp: "remainingGas (gp st') = remainingGas pool - Gas msg + gasRemaining st'"
    by auto
  have q: "?q \<noteq> 0" by simp
  note acc = gas_accounting [OF g L pool q, of "Refund (state st')", folded left used]
  have sum: "unat (remainingGas (gp st')) + unat (UsedGas res) = unat (remainingGas pool)"
    using acc(4) by (simp add: gp)
  then have "unat (remainingGas (gp st')) \<le> unat (remainingGas pool)" by linarith
  then have le: "remainingGas (gp st') \<le> remainingGas pool" by (simp add: word_le_nat_alt)
  have w: "remainingGas pool - remainingGas (gp st') = UsedGas res"
    by (simp add: gp used)
  show ?thesis using sum le w by simp
qed

theorem gas_pool_conservation_witness:
  "\<not> IsDepositTx example_msg \<and> vm_returns_leftover example_evm
   \<and> (\<exists>res st'. ApplyMessage protocol_params example_evm example_msg example_pool example_state
          = Returns (Some res, None, st')
        \<and> UsedGas res = 13000 \<and> remainingGas (gp st') = 87000
        \<and> remainingGas example_pool = 100000
        \<and> unat (remainingGas example_pool) - unat (remainingGas (gp st')) = unat (UsedGas res))"
proof -
  have nd: "\<not> IsDepositTx example_msg" by (simp add: example_defs)
  obtain st' where run: "ApplyMessage protocol_params example_evm example_msg example_pool
      example_state = Returns (Some \<lparr> UsedGas = 13000, Err = None, ReturnData = [] \<rparr>, None, st')"
    and pool: "remainingGas (gp st') = 87000"
    using example_run by blast
  have p: "remainingGas example_pool = 100000" by (simp add: example_defs)
  from gas_pool_conservation [OF nd example_vm_returns_leftover run] nd example_vm_returns_leftover run pool p
  show ?thesis by auto
qed

section \<open>Claims about deposits\<close>

lemma example_deposit_inner:
  "\<exists>st1. innerTransitionDb protocol_params example_evm example_deposit
       (case Mint example_deposit of
          None \<Rightarrow> \<lparr> gp = example_pool, gasRemaining = 0, state = example_state \<rparr>
        | Some mint \<Rightarrow> \<lparr> gp = example_pool, gasRemaining = 0, state = example_state \<rparr>
            \<lparr>state := AddBalance
               (state \<lparr> gp = example_pool, gasRemaining = 0, state = example_state \<rparr>)
               (From example_deposit) mint\<rparr>)
     = Returns (None, Some (Errorf ''%w: have %d, want %d'' ErrIntrinsicGas), st1)
     \<and> remainingGas (gp st1) = 99900"
  by (simp add: engine_defs example_defs)

lemma example_deposit_gas_limit:
  "\<exists>st1. innerTransitionDb protocol_params example_evm (example_deposit\<lparr>Gas := 200000\<rparr>)
       (case Mint (example_deposit\<lparr>Gas := 200000\<rparr>) of
          None \<Rightarrow> \<lparr> gp = example_pool, gasRemaining = 0, state = example_state \<rparr>
        | Some mint \<Rightarrow> \<lparr> gp = example_pool, gasRemaining = 0, state = example_state \<rparr>
            \<lparr>state := AddBalance
               (state \<lparr> gp = example_pool, gasRemaining = 0, state = example_state \<rparr>)
               (From (example_deposit\<lparr>Gas := 200000\<rparr>)) mint\<rparr>)
     = Returns (None, Some ErrGasLimitReached, st1)
     \<and> remainingGas (gp st1) = 100000"
  by (simp add: engine_defs example_defs)

text \<open>
  C4. For a deposit message whose inner pipeline fails: an error other than
  \<^verbatim>\<open>ErrGasLimitReached\<close> makes \<^verbatim>\<open>TransitionDb\<close> put the ledger back to the snapshot
  taken after minting, set the sender's nonce to its value there plus 1 (in \<^verbatim>\<open>uint64\<close>),
  and return no consensus error with a result whose \<^verbatim>\<open>UsedGas\<close> is the gas limit (0 for
  a system transaction), whose \<^verbatim>\<open>Err\<close> wraps the error and whose \<^verbatim>\<open>ReturnData\<close> is
  empty; \<^verbatim>\<open>ErrGasLimitReached\<close> is returned as it is, with no result.
\<close>

theorem TransitionDb_failed_deposit:
  assumes dep: "IsDepositTx msg"
    and st0: "st0 = (case Mint msg of None \<Rightarrow> st
                     | Some mint \<Rightarrow> st\<lparr>state := AddBalance (state st) (From msg) mint\<rparr>)"
    and inner: "innerTransitionDb p evm msg st0 = Returns (res, Some err, st1)"
  shows "(err = ErrGasLimitReached \<longrightarrow>
            TransitionDb p evm msg st = Returns (None, Some ErrGasLimitReached, st1))
       \<and> (err \<noteq> ErrGasLimitReached \<longrightarrow>
            TransitionDb p evm msg st =
              Returns (Some \<lparr> UsedGas = (if IsSystemTx msg then 0 else Gas msg),
                              Err = Some (Errorf ''failed deposit: %w'' err),
                              ReturnData = [] \<rparr>,
                       None,
                       st1\<lparr>state := SetNonce (state st0) (From msg)
                                       (GetNonce (state st0) (From msg) + 1)\<rparr>)
            \<and> Unwrap (Errorf ''failed deposit: %w'' err) = Some err
            \<and> GetNonce (SetNonce (state st0) (From msg) (GetNonce (state st0) (From msg) + 1))
                 (From msg) = GetNonce (state st0) (From msg) + 1)"
proof -
  have r: "res = None" using innerTransitionDb_error_no_result [OF inner] .
  show ?thesis
    using dep inner r unfolding TransitionDb_def st0 [symmetric] Let_def
    by (simp add: Snapshot_def RevertToSnapshot_def GetNonce_def SetNonce_def)
qed

theorem TransitionDb_failed_deposit_witness:
  "IsDepositTx example_deposit \<and> IsDepositTx (example_deposit\<lparr>Gas := 200000\<rparr>)
   \<and> (\<exists>st'. TransitionDb protocol_params example_evm example_deposit
               \<lparr> gp = example_pool, gasRemaining = 0, state = example_state \<rparr>
             = Returns (Some \<lparr> UsedGas = 100,
                              Err = Some (Errorf ''failed deposit: %w''
                                            (Errorf ''%w: have %d, want %d'' ErrIntrinsicGas)),
                              ReturnData = [] \<rparr>, None, st')
           \<and> GetNonce (state st') 1 = 1 \<and> GetBalance (state st') 1 = 1000100
           \<and> remainingGas (gp st') = 99900)
   \<and> (\<exists>st'. TransitionDb protocol_params example_evm (example_deposit\<lparr>Gas := 200000\<rparr>)
               \<lparr> gp = example_pool, gasRemaining = 0, state = example_state \<rparr>
             = Returns (None, Some ErrGasLimitReached, st'))"
proof -
  have dep: "IsDepositTx example_deposit" "IsDepositTx (example_deposit\<lparr>Gas := 200000\<rparr>)"
    by (simp_all add: example_defs)
  obtain st1 where inner1: "innerTransitionDb protocol_params example_evm example_deposit
       (case Mint example_deposit of
          None \<Rightarrow> \<lparr> gp = example_pool, gasRemaining = 0, state = example_state \<rparr>
        | Some mint \<Rightarrow> \<lparr> gp = example_pool, gasRemaining = 0, state = example_state \<rparr>
            \<lparr>state := AddBalance
               (state \<lparr> gp = example_pool, gasRemaining = 0, state = example_state \<rparr>)
               (From example_deposit) mint\<rparr>)
     = Returns (None, Some (Errorf ''%w: have %d, want %d'' ErrIntrinsicGas), st1)"
    and pool1: "remainingGas (gp st1) = 99900"
    using example_deposit_inner by blast
  obtain st2 where inner2: "innerTransitionDb protocol_params example_evm
       (example_deposit\<lparr>Gas := 200000\<rparr>)
       (case Mint (example_deposit\<lparr>Gas := 200000\<rparr>) of
          None \<Rightarrow> \<lparr> gp = example_pool, gasRemaining = 0, state = example_state \<rparr>
        | Some mint \<Rightarrow> \<lparr> gp = example_pool, gasRemaining = 0, state = example_state \<rparr>
            \<lparr>state := AddBalance
               (state \<lparr> gp = example_pool, gasRemaining = 0, state = example_state \<rparr>)
               (From (example_deposit\<lparr>Gas := 200000\<rparr>)) mint\<rparr>)
     = Returns (None, Some ErrGasLimitReached, st2)"
    using example_deposit_gas_limit by blast
  from TransitionDb_failed_deposit [OF dep(1) refl inner1]
    TransitionDb_failed_deposit [OF dep(2) refl inner2] dep pool1
  show ?thesis
    by (simp add: example_defs GetNonce_def SetNonce_def GetBalance_def AddBalance_def)
qed

text \<open>
  C6. For a message with a mint amount, \<^verbatim>\<open>TransitionDb\<close> credits the sender before it
  takes the snapshot: the inner pipeline runs on the credited ledger, and when a deposit
  then fails (with an error other than \<^verbatim>\<open>ErrGasLimitReached\<close>) the ledger returned is
  the credited ledger with the sender's nonce incremented, so the sender's balance is its
  old balance plus the mint and every other balance is as before.
\<close>

theorem TransitionDb_mint_retained:
  assumes mint: "Mint msg = Some mint" and dep: "IsDepositTx msg"
    and inner: "innerTransitionDb p evm msg
                  (st\<lparr>state := AddBalance (state st) (From msg) mint\<rparr>)
                = Returns (res, Some err, st1)"
    and err: "err \<noteq> ErrGasLimitReached"
  shows "\<exists>r st'. TransitionDb p evm msg st = Returns (Some r, None, st')
           \<and> state st' = SetNonce (AddBalance (state st) (From msg) mint) (From msg)
                            (GetNonce (AddBalance (state st) (From msg) mint) (From msg) + 1)
           \<and> GetBalance (state st') (From msg) = GetBalance (state st) (From msg) + mint
           \<and> (\<forall>a. a \<noteq> From msg \<longrightarrow> GetBalance (state st') a = GetBalance (state st) a)"
  using dep inner err mint unfolding TransitionDb_def Let_def
  by (simp add: Snapshot_def RevertToSnapshot_def GetNonce_def SetNonce_def GetBalance_def
        AddBalance_def)

theorem TransitionDb_mint_retained_witness:
  "Mint example_deposit = Some 100 \<and> IsDepositTx example_deposit
   \<and> (\<exists>r st'. TransitionDb protocol_params example_evm example_deposit
               \<lparr> gp = example_pool, gasRemaining = 0, state = example_state \<rparr>
             = Returns (Some r, None, st')
           \<and> GetBalance (state st') (From example_deposit) = 1000000 + 100
           \<and> GetBalance example_state (From example_deposit) = 1000000)"
proof -
  have mint: "Mint example_deposit = Some 100" and dep: "IsDepositTx example_deposit"
    by (simp_all add: example_defs)
  obtain st1 where inner: "innerTransitionDb protocol_params example_evm example_deposit
       (\<lparr> gp = example_pool, gasRemaining = 0, state = example_state \<rparr>
            \<lparr>state := AddBalance
               (state \<lparr> gp = example_pool, gasRemaining = 0, state = example_state \<rparr>)
               (From example_deposit) 100\<rparr>)
     = Returns (None, Some (Errorf ''%w: have %d, want %d'' ErrIntrinsicGas), st1)"
    using example_deposit_inner by (auto simp: mint)
  have ne: "Errorf ''%w: have %d, want %d'' ErrIntrinsicGas \<noteq> ErrGasLimitReached" by simp
  have b: "GetBalance example_state (From example_deposit) = 1000000"
    by (simp add: example_defs GetBalance_def)
  from TransitionDb_mint_retained [OF mint dep inner ne] mint dep b show ?thesis by auto
qed

end
